theory Spec2Isabelle
  imports Main
begin

section \<open>Delegation concurrency tracking (plan.md, change 8: src/container-runner.ts)\<close>

text \<open>
  \<^verbatim>\<open>
  let activeDelegations = 0;
  const MAX_DELEGATION_CONTAINERS = 3;
  export function canDelegate(): boolean {
    return activeDelegations < MAX_DELEGATION_CONTAINERS;
  }
  export function trackDelegation<T>(fn: () => Promise<T>): Promise<T> {
    activeDelegations++;
    return fn().finally(() => { activeDelegations--; });
  }
  \<close>
  The module variable is a one-field state record. An exception is represented by its
  rendering \<open>String(err)\<close>.
\<close>

type_synonym exn = string

record pool =
  activeDelegations :: int

definition MAX_DELEGATION_CONTAINERS :: int where
  "MAX_DELEGATION_CONTAINERS = 3"

definition canDelegate :: "'a pool_scheme \<Rightarrow> bool" where
  "canDelegate s \<longleftrightarrow> activeDelegations s < MAX_DELEGATION_CONTAINERS"

text \<open>
  \<open>fn()\<close> either throws synchronously (then \<open>.finally\<close> is never reached) or returns a
  promise, to which the callback is attached. The promise settles later, fulfilled or
  rejected, at most once; the callback runs at that moment. The tracker extends the pool by
  the promises created so far (numbered from 0), the ones whose callback is still waiting,
  and a log of the callback's executions.
\<close>

datatype fn_call = Throws exn | ReturnsPromise

datatype settlement = Fulfilled | RejectedWith exn

record tracker = pool +
  promises :: nat
  onFinally :: "nat list"
  released :: "nat list"

definition trackDelegation :: "fn_call \<Rightarrow> tracker \<Rightarrow> (exn + nat) \<times> tracker" where
  "trackDelegation fn s =
     (let s1 = s\<lparr>activeDelegations := activeDelegations s + 1\<rparr> in
      case fn of
        Throws e \<Rightarrow> (Inl e, s1)
      | ReturnsPromise \<Rightarrow>
          (Inr (promises s1),
           s1\<lparr>promises := Suc (promises s1), onFinally := promises s1 # onFinally s1\<rparr>))"

definition settle :: "nat \<Rightarrow> settlement \<Rightarrow> tracker \<Rightarrow> tracker" where
  "settle p r s =
     (if p \<in> set (onFinally s)
      then s\<lparr>activeDelegations := activeDelegations s - 1,
             onFinally := removeAll p (onFinally s),
             released := p # released s\<rparr>
      else s)"

text \<open>A history of the module: calls of \<open>trackDelegation\<close> and settlements of promises.\<close>

datatype event = Track fn_call | Settle nat settlement

fun step :: "event \<Rightarrow> tracker \<Rightarrow> tracker" where
  "step (Track fn) s = snd (trackDelegation fn s)"
| "step (Settle p r) s = settle p r s"










section \<open>Delegation coordinator (plan.md, changes 2 to 5: src/ipc.ts, src/config.ts, src/types.ts)\<close>

subsection \<open>Data\<close>

text \<open>
  \<open>ContainerConfig\<close> as plan.md extends it (the type \<open>AdditionalMount\<close> of its first field is
  not in the sources, so the mounts are kept as opaque strings), and \<open>RegisteredGroup\<close> with
  the fields the sources read: \<open>folder\<close>, \<open>jid\<close> (absent for a group without one:
  \<open>target.jid || ''\<close>), \<open>name\<close>, \<open>trigger\<close>, \<open>added_at\<close>, \<open>containerConfig\<close>.
\<close>

record ContainerConfig =
  additionalMounts :: "string list option"
  timeout :: "nat option"
  allowDelegation :: "string list option"

record RegisteredGroup =
  jid :: "string option"
  name :: string
  folder :: string
  trigger :: string
  added_at :: string
  containerConfig :: "ContainerConfig option"

text \<open>
  The constants of src/config.ts that the sources import but do not define are parameters:
  one record holds them. \<open>TRIGGER_PATTERN\<close> is the predicate \<open>TRIGGER_PATTERN.test\<close>
  (a regular expression without the global flag: \<open>test\<close> keeps no state).
\<close>

record config =
  DATA_DIR :: string
  MAIN_GROUP_FOLDER :: string
  ASSISTANT_NAME :: string
  TELEGRAM_ALLOWED_USERS :: "string list"
  TRIGGER_PATTERN :: "string \<Rightarrow> bool"

definition DELEGATION_POLL_INTERVAL :: nat where
  "DELEGATION_POLL_INTERVAL = 2000"

definition DELEGATION_DEFAULT_TIMEOUT :: nat where
  "DELEGATION_DEFAULT_TIMEOUT = 300"

definition DELEGATION_MAX_TIMEOUT :: nat where
  "DELEGATION_MAX_TIMEOUT = 1800"

text \<open>
  The task \<open>{ type: 'delegate', requestId, targetGroup, prompt, timeoutSeconds }\<close>, its
  fields in this order; the input handed to \<open>runContainerAgent\<close>; and the object written to
  an outcome file: \<open>Success result targetGroup\<close> is
  \<open>{ status: 'success', result, targetGroup }\<close> and \<open>Error error targetGroup\<close> is
  \<open>{ status: 'error', error, targetGroup }\<close>, where the unknown-group error carries no
  \<open>targetGroup\<close>. \<open>JSON.stringify\<close> is left abstract: a file holds the object.
\<close>

datatype task = Delegate string string string nat

record ContainerInput =
  prompt :: string
  groupFolder :: string
  chatJid :: string
  isMain :: bool
  isScheduledTask :: bool
  secrets :: "(string \<times> string) list"

datatype DelegationOutcome = Success string string | Error string "string option"

text \<open>
  \<open>fs.writeFileSync(file, data)\<close> opens the file, creating it or truncating what it held,
  writes the data and closes it. It can throw at the open (a missing directory,
  permissions), and then leaves nothing; or after the open (a full disk, a quota), and
  then leaves a truncated file behind. A file therefore holds an object whole or is
  truncated, and a failure is one of the two kinds, with the error thrown.
\<close>

datatype file_content = Whole DelegationOutcome | Truncated

datatype write_failure = OpenFails exn | WriteFails exn

text \<open>
  The host: the delegation counter, the files \<open>fs.writeFileSync\<close> created or replaced
  (oldest first, each with what the call left in it), the paths at which
  \<open>fs.writeFileSync\<close> fails and how, the calls of \<open>runContainerAgent\<close> (oldest first), and
  the invocations of \<open>handleDelegation\<close> suspended at their \<open>await\<close>: source group, target
  and request id of each.
\<close>

record host = pool +
  written :: "(string \<times> file_content) list"
  writeError :: "string \<Rightarrow> write_failure option"
  containerRuns :: "ContainerInput list"
  suspended :: "(string \<times> RegisteredGroup \<times> string) list"

text \<open>The exception \<open>fs.writeFileSync\<close> throws, if any, and the host after the call.\<close>

definition fs_writeFileSync ::
  "string \<Rightarrow> DelegationOutcome \<Rightarrow> host \<Rightarrow> exn option \<times> host" where
  "fs_writeFileSync file obj s =
     (case writeError s file of
        None \<Rightarrow> (None, s\<lparr>written := written s @ [(file, Whole obj)]\<rparr>)
      | Some (OpenFails err) \<Rightarrow> (Some err, s)
      | Some (WriteFails err) \<Rightarrow> (Some err, s\<lparr>written := written s @ [(file, Truncated)]\<rparr>))"

subsection \<open>Paths\<close>

text \<open>\<open>Array.prototype.join\<close> on an array of strings.\<close>

fun join :: "string \<Rightarrow> string list \<Rightarrow> string" where
  "join sep [] = []"
| "join sep [x] = x"
| "join sep (x # y # ys) = x @ sep @ join sep (y # ys)"

text \<open>
  Node's POSIX \<open>path.join\<close>: the non-empty arguments joined by a slash, then normalised;
  \<open>.\<close> when nothing is left. \<open>split_slash\<close> cuts a path at every slash.
  \<open>normalizeString\<close> walks the segments: an empty segment and \<open>.\<close> are skipped; \<open>..\<close>
  removes the last segment kept unless there is none or it is \<open>..\<close> itself, in which
  case it is kept when the path is relative and dropped when it is absolute; every other
  segment is kept. \<open>normalize\<close> puts the leading and the trailing slash back.
\<close>

fun split_slash :: "string \<Rightarrow> string list" where
  "split_slash [] = [[]]"
| "split_slash (c # cs) =
     (if c = CHR ''/'' then [] # split_slash cs
      else (case split_slash cs of
              [] \<Rightarrow> [[c]]
            | seg # segs \<Rightarrow> (c # seg) # segs))"

fun normalizeString :: "bool \<Rightarrow> string list \<Rightarrow> string list \<Rightarrow> string list" where
  "normalizeString allowAboveRoot res [] = res"
| "normalizeString allowAboveRoot res (seg # segs) =
     (if seg = [] \<or> seg = ''.'' then normalizeString allowAboveRoot res segs
      else if seg = ''..'' then
        (if res \<noteq> [] \<and> last res \<noteq> ''..''
         then normalizeString allowAboveRoot (butlast res) segs
         else if allowAboveRoot then normalizeString allowAboveRoot (res @ [''..'']) segs
         else normalizeString allowAboveRoot res segs)
      else normalizeString allowAboveRoot (res @ [seg]) segs)"

definition normalize :: "string \<Rightarrow> string" where
  "normalize p =
     (if p = [] then ''.''
      else
        (let isAbsolute = (hd p = CHR ''/'');
             trailingSeparator = (last p = CHR ''/'');
             q = join ''/'' (normalizeString (\<not> isAbsolute) [] (split_slash p))
         in if q = []
            then (if isAbsolute then ''/'' else if trailingSeparator then ''./'' else ''.'')
            else (if isAbsolute then ''/'' else []) @ q @
                 (if trailingSeparator then ''/'' else [])))"

definition path_join :: "string list \<Rightarrow> string" where
  "path_join args =
     (if join ''/'' (filter (\<lambda>arg. arg \<noteq> []) args) = [] then ''.''
      else normalize (join ''/'' (filter (\<lambda>arg. arg \<noteq> []) args)))"

definition resultDir :: "config \<Rightarrow> string \<Rightarrow> string" where
  "resultDir cfg sourceGroup = path_join [DATA_DIR cfg, ''ipc'', sourceGroup, ''input'']"

definition resultFile :: "config \<Rightarrow> string \<Rightarrow> string \<Rightarrow> string" where
  "resultFile cfg sourceGroup requestId =
     path_join [resultDir cfg sourceGroup, ''delegate-result-'' @ requestId @ ''.json'']"

definition errorFile :: "config \<Rightarrow> string \<Rightarrow> string \<Rightarrow> string" where
  "errorFile cfg sourceGroup requestId =
     path_join [resultDir cfg sourceGroup, ''delegate-error-'' @ requestId @ ''.json'']"

subsection \<open>The result text\<close>

text \<open>
  The streaming callback \<open>async (out) => { if (out.result) results.push(out.result); }\<close>
  (\<open>out.result\<close> is a string or null; null and the empty string are falsy), and
  \<open>results.join('\n\n') || output.result || '(no output)'\<close>.
\<close>

definition onOutput :: "string list \<Rightarrow> string option \<Rightarrow> string list" where
  "onOutput results out =
     (case out of
        None \<Rightarrow> results
      | Some r \<Rightarrow> if r \<noteq> [] then results @ [r] else results)"

definition streamed :: "string option list \<Rightarrow> string list" where
  "streamed outs = foldl onOutput [] outs"

definition paragraph_break :: string where
  "paragraph_break = [CHR 0x0A, CHR 0x0A]"

definition successResult :: "string list \<Rightarrow> string option \<Rightarrow> string" where
  "successResult results output_result =
     (if join paragraph_break results \<noteq> [] then join paragraph_break results
      else case output_result of
        None \<Rightarrow> ''(no output)''
      | Some r \<Rightarrow> if r \<noteq> [] then r else ''(no output)'')"

subsection \<open>handleDelegation\<close>

text \<open>
  \<open>runContainerAgent\<close> is not in the sources. Its call is recorded, and what the awaited
  promise does is a parameter: it rejects with an error (a synchronous throw inside the
  \<open>try\<close> lands in the same \<open>catch\<close>), or it resolves with \<open>output\<close> after the callback has
  been fed the outputs \<open>outs\<close>; \<open>Resolves outs r\<close> gives the \<open>result\<close> field of each output
  and of \<open>output\<close>. \<open>readSecrets()\<close> is not in the sources either; its value is a parameter.

  An \<open>async\<close> function runs up to its first \<open>await\<close> when called
  (\<open>handleDelegation_start\<close>) and resumes when the awaited promise settles
  (\<open>handleDelegation_resume\<close>). The returned \<open>exn option\<close> is the exception the function
  lets out (the rejection of its own promise), if any. The parameter \<open>timeoutSeconds\<close> is
  not used by the body.
\<close>

datatype run_result = Rejects exn | Resolves "string option list" "string option"

definition handleDelegation_start ::
  "config \<Rightarrow> (string \<times> string) list \<Rightarrow> string \<Rightarrow> RegisteredGroup \<Rightarrow> string \<Rightarrow> string \<Rightarrow> nat
     \<Rightarrow> host \<Rightarrow> host" where
  "handleDelegation_start cfg secrets' sourceGroup target requestId prompt' timeoutSeconds s =
     s\<lparr>containerRuns := containerRuns s @
          [\<lparr>prompt = prompt',
            groupFolder = folder target,
            chatJid = (case jid target of None \<Rightarrow> [] | Some j \<Rightarrow> j),
            isMain = (folder target = MAIN_GROUP_FOLDER cfg),
            isScheduledTask = True,
            secrets = secrets'\<rparr>],
       suspended := suspended s @ [(sourceGroup, target, requestId)]\<rparr>"

definition handleDelegation_catch ::
  "config \<Rightarrow> string \<Rightarrow> RegisteredGroup \<Rightarrow> string \<Rightarrow> exn \<Rightarrow> host \<Rightarrow> exn option \<times> host" where
  "handleDelegation_catch cfg sourceGroup target requestId err s =
     fs_writeFileSync (errorFile cfg sourceGroup requestId)
       (Error err (Some (folder target))) s"

definition handleDelegation_resume ::
  "config \<Rightarrow> string \<Rightarrow> RegisteredGroup \<Rightarrow> string \<Rightarrow> run_result \<Rightarrow> host \<Rightarrow> exn option \<times> host" where
  "handleDelegation_resume cfg sourceGroup target requestId r s =
     (let s0 = s\<lparr>suspended := remove1 (sourceGroup, target, requestId) (suspended s)\<rparr> in
      case r of
        Rejects err \<Rightarrow> handleDelegation_catch cfg sourceGroup target requestId err s0
      | Resolves outs output_result \<Rightarrow>
          (case fs_writeFileSync (resultFile cfg sourceGroup requestId)
                  (Success (successResult (streamed outs) output_result) (folder target)) s0 of
             (None, s') \<Rightarrow> (None, s')
           | (Some err, s') \<Rightarrow> handleDelegation_catch cfg sourceGroup target requestId err s'))"

text \<open>The whole call, for a run that settles with \<open>r\<close> and nothing else in between.\<close>

definition handleDelegation ::
  "config \<Rightarrow> (string \<times> string) list \<Rightarrow> run_result \<Rightarrow> string \<Rightarrow> RegisteredGroup \<Rightarrow> string
     \<Rightarrow> string \<Rightarrow> nat \<Rightarrow> host \<Rightarrow> exn option \<times> host" where
  "handleDelegation cfg secrets' r sourceGroup target requestId prompt' timeoutSeconds s =
     handleDelegation_resume cfg sourceGroup target requestId r
       (handleDelegation_start cfg secrets' sourceGroup target requestId prompt' timeoutSeconds s)"

subsection \<open>The delegate case of processTaskIpc\<close>

text \<open>
  Modelled from the spec: \<open>writeIpcResult\<close> is called by the delegate case and defined
  nowhere in the sources. By plan.md (handler logic, step 6) and the spec (result
  artifacts live in the source group's inbound results area, keyed by request id) it
  writes the object to the source group's input directory, an error under
  \<open>delegate-error-<requestId>.json\<close> and a success under
  \<open>delegate-result-<requestId>.json\<close>.
\<close>

definition writeIpcResult ::
  "config \<Rightarrow> string \<Rightarrow> string \<Rightarrow> DelegationOutcome \<Rightarrow> host \<Rightarrow> exn option \<times> host" where
  "writeIpcResult cfg sourceGroup requestId obj s =
     fs_writeFileSync
       (case obj of
          Success _ _ \<Rightarrow> resultFile cfg sourceGroup requestId
        | Error _ _ \<Rightarrow> errorFile cfg sourceGroup requestId) obj s"

text \<open>
  \<open>registeredGroups\<close> is the host's record from jid to group, in insertion order (the order
  of \<open>Object.values\<close>). The case looks the target up by folder, writes the unknown-group
  error when there is none, and otherwise calls \<open>handleDelegation\<close> without awaiting it.
  Where the source has its authorization comment there is no statement, and neither
  \<open>canDelegate\<close> nor \<open>trackDelegation\<close> is called.
\<close>

fun processTaskIpc ::
  "config \<Rightarrow> (string \<times> RegisteredGroup) list \<Rightarrow> (string \<times> string) list \<Rightarrow> string \<Rightarrow> task
     \<Rightarrow> host \<Rightarrow> exn option \<times> host" where
  "processTaskIpc cfg registeredGroups secrets' sourceGroup
       (Delegate requestId targetGroup prompt' timeoutSeconds) s =
     (case List.find (\<lambda>g. folder g = targetGroup) (map snd registeredGroups) of
        None \<Rightarrow> writeIpcResult cfg sourceGroup requestId (Error ''Unknown group'' None) s
      | Some targetRegistered \<Rightarrow>
          (None, handleDelegation_start cfg secrets' sourceGroup targetRegistered requestId
                   prompt' timeoutSeconds s))"


section \<open>The requester's wait (plan.md, change 1: the delegate tool)\<close>

text \<open>
  Modelled from the spec: the handler of the \<open>delegate\<close> tool
  (container/agent-runner/src/ipc-mcp-stdio.ts) is not in the sources. plan.md gives its
  logic in words (steps 3 to 6: poll \<open>delegate-result-<requestId>.json\<close> every 2 seconds;
  on a file found read, parse, delete and return it; on timeout return an error; the same
  for \<open>delegate-error-<requestId>.json\<close>) and the spec its contract (4.4: repeated polling at
  the poll interval; on finding either artifact read it, delete it and return the parsed
  outcome; when the timeout elapses with neither present return a client-side timeout).

  The directory \<open>/workspace/ipc/input\<close> maps a file name to the object the file holds.
  Time is counted in milliseconds since the wait began. Between two polls the rest of the
  system may change the directory: \<open>world t\<close> is what it does during the sleep that starts
  at time \<open>t\<close>.
\<close>

type_synonym inbox = "string \<Rightarrow> DelegationOutcome option"

datatype wait_result = Outcome DelegationOutcome | ClientTimeout

definition resultName :: "string \<Rightarrow> string" where
  "resultName requestId = ''delegate-result-'' @ requestId @ ''.json''"

definition errorName :: "string \<Rightarrow> string" where
  "errorName requestId = ''delegate-error-'' @ requestId @ ''.json''"

function awaitResult ::
  "(nat \<Rightarrow> inbox \<Rightarrow> inbox) \<Rightarrow> string \<Rightarrow> nat \<Rightarrow> nat \<Rightarrow> inbox \<Rightarrow> wait_result \<times> inbox" where
  "awaitResult world requestId timeoutMs elapsed dir =
     (case dir (resultName requestId) of
        Some obj \<Rightarrow> (Outcome obj, dir(resultName requestId := None))
      | None \<Rightarrow>
          (case dir (errorName requestId) of
             Some obj \<Rightarrow> (Outcome obj, dir(errorName requestId := None))
           | None \<Rightarrow>
               if timeoutMs \<le> elapsed then (ClientTimeout, dir)
               else awaitResult world requestId timeoutMs
                      (elapsed + DELEGATION_POLL_INTERVAL) (world elapsed dir)))"
  by pat_completeness auto
termination
  by (relation "measure (\<lambda>(world, requestId, timeoutMs, elapsed, dir). timeoutMs - elapsed)")
    (auto simp: DELEGATION_POLL_INTERVAL_def)

declare awaitResult.simps [simp del]

text \<open>The directory the \<open>n\<close>-th poll looks at (polls are counted from 0) when no poll before it
  found a file.\<close>

fun polled :: "(nat \<Rightarrow> inbox \<Rightarrow> inbox) \<Rightarrow> inbox \<Rightarrow> nat \<Rightarrow> inbox" where
  "polled world dir 0 = dir"
| "polled world dir (Suc n) = world (n * DELEGATION_POLL_INTERVAL) (polled world dir n)"

definition absent :: "string \<Rightarrow> inbox \<Rightarrow> bool" where
  "absent requestId dir \<longleftrightarrow> dir (resultName requestId) = None \<and> dir (errorName requestId) = None"

section \<open>The Telegram channel (src/channels/telegram.ts)\<close>

subsection \<open>What the channel does to the outside\<close>

text \<open>
  The calls a handler or \<open>sendMessage\<close> makes, in order: \<open>ctx.reply\<close>, the callbacks
  \<open>onChatMetadata\<close> (its third argument is absent for non-text messages) and \<open>onMessage\<close>,
  the four admin commands, \<open>bot.api.sendMessage\<close>, and the logger (level and message; the
  structured fields are left out). A timestamp is left as \<open>ISO ms\<close>, the value of
  \<open>new Date(ms).toISOString()\<close>. A text is a list of UTF-16 code units as JavaScript
  counts and slices them; one \<open>char\<close> stands for one unit.
\<close>

datatype timestamp = ISO int

record NewMessage =
  id :: string
  chat_jid :: string
  sender :: string
  sender_name :: string
  content :: string
  timestamp :: timestamp
  is_from_me :: bool

datatype effect =
    Reply string
  | OnChatMetadata string timestamp "string option"
  | OnMessage string NewMessage
  | ResetSession string
  | ResetMemory string
  | RestartContainer string
  | RebuildContainer
  | ApiSendMessage string string
  | Log string string

subsection \<open>sendMessage\<close>

definition MAX_LENGTH :: nat where
  "MAX_LENGTH = 4096"

text \<open>\<open>jid.replace(/^tg:/, '')\<close> and \<open>text.slice(i, j)\<close> for \<open>0 \<le> i \<le> j\<close>.\<close>

definition numericId_of :: "string \<Rightarrow> string" where
  "numericId_of jid' = (if take 3 jid' = ''tg:'' then drop 3 jid' else jid')"

definition slice :: "string \<Rightarrow> nat \<Rightarrow> nat \<Rightarrow> string" where
  "slice text i j = take (j - i) (drop i text)"

text \<open>
  \<open>bot.api.sendMessage\<close> is the network: \<open>api k\<close> says whether the \<open>k\<close>-th call of this
  invocation resolves (\<open>None\<close>) or rejects with an error. The loop
  \<open>for (let i = 0; i < text.length; i += MAX_LENGTH)\<close> stops at the first call that
  rejects: the \<open>try\<close> encloses the whole loop. It returns the calls made and the error that
  ended it, if one did.
\<close>

function sendLoop ::
  "(nat \<Rightarrow> exn option) \<Rightarrow> string \<Rightarrow> string \<Rightarrow> nat \<Rightarrow> nat \<Rightarrow> (string \<times> string) list \<times> exn option" where
  "sendLoop api numericId text i k =
     (if i < length text then
        (case api k of
           Some err \<Rightarrow> ([(numericId, slice text i (i + MAX_LENGTH))], Some err)
         | None \<Rightarrow>
             (case sendLoop api numericId text (i + MAX_LENGTH) (Suc k) of
                (calls, e) \<Rightarrow> ((numericId, slice text i (i + MAX_LENGTH)) # calls, e)))
      else ([], None))"
  by pat_completeness auto
termination
  by (relation "measure (\<lambda>(api, numericId, text, i, k). length text - i)")
    (auto simp: MAX_LENGTH_def)

declare sendLoop.simps [simp del]

text \<open>\<open>this_bot\<close> says whether \<open>this.bot\<close> is set. The first component of the result is the
  exception \<open>sendMessage\<close> lets out, if any.\<close>

definition sendMessage ::
  "bool \<Rightarrow> (nat \<Rightarrow> exn option) \<Rightarrow> string \<Rightarrow> string \<Rightarrow> exn option \<times> effect list" where
  "sendMessage this_bot api jid' text =
     (if \<not> this_bot then (None, [Log ''warn'' ''Telegram bot not initialized''])
      else
        (case (if length text \<le> MAX_LENGTH
               then ([(numericId_of jid', text)], api 0)
               else sendLoop api (numericId_of jid') text 0 0) of
           (calls, None) \<Rightarrow>
             (None, map (\<lambda>(c, t). ApiSendMessage c t) calls @
                      [Log ''info'' ''Telegram message sent''])
         | (calls, Some err) \<Rightarrow>
             (None, map (\<lambda>(c, t). ApiSendMessage c t) calls @
                      [Log ''error'' ''Failed to send Telegram message''])))"

definition apiCalls :: "effect list \<Rightarrow> (string \<times> string) list" where
  "apiCalls effs = concat (map (\<lambda>e. case e of ApiSendMessage c t \<Rightarrow> [(c, t)] | _ \<Rightarrow> []) effs)"


subsection \<open>The inbound update\<close>

text \<open>
  What a handler reads of grammY's context: \<open>ctx.from\<close> (absent for some updates),
  \<open>ctx.chat\<close>, \<open>ctx.me?.username\<close> and \<open>ctx.message\<close> (its \<open>text\<close> is the field \<open>msg_text\<close>). Of a message entity the type, the
  offset and the length are read. The message carries \<open>document?.file_name\<close> and
  \<open>sticker?.emoji\<close> where it has them.
\<close>

record tg_user =
  user_id :: int
  first_name :: string
  username :: "string option"

record tg_chat =
  chat_id :: int
  chat_type :: string
  title :: "string option"

record entity =
  entity_type :: string
  offset :: nat
  entity_length :: nat

record tg_message =
  msg_text :: string
  date :: int
  message_id :: int
  entities :: "entity list option"
  caption :: "string option"
  document_file_name :: "string option"
  sticker_emoji :: "string option"

record ctx =
  ctx_from :: "tg_user option"
  chat :: tg_chat
  me_username :: "string option"
  message :: tg_message

text \<open>
  The admin commands return a promise of the text to reply with; it may reject. The
  options of the channel: the record \<open>registeredGroups()\<close> returns (from jid to group) and
  the admin commands, if any. The callbacks \<open>onMessage\<close> and \<open>onChatMetadata\<close> are effects.
\<close>

record AdminCommands =
  resetSession :: "string \<Rightarrow> exn + string"
  resetMemory :: "string \<Rightarrow> exn + string"
  restartContainer :: "string \<Rightarrow> exn + string"
  rebuildContainer :: "exn + string"

record TelegramChannelOpts =
  registeredGroups :: "(string \<times> RegisteredGroup) list"
  adminCommands :: "AdminCommands option"

subsection \<open>JavaScript helpers\<close>

text \<open>\<open>Number.prototype.toString\<close> on an integer: its decimal digits.\<close>

function nat_toString :: "nat \<Rightarrow> string" where
  "nat_toString n =
     (if n < 10 then [char_of (48 + n)]
      else nat_toString (n div 10) @ [char_of (48 + n mod 10)])"
  by pat_completeness auto
termination
  by (relation "measure (\<lambda>n. n)") auto

declare nat_toString.simps [simp del]

definition toString :: "int \<Rightarrow> string" where
  "toString i = (if i < 0 then CHR ''-'' # nat_toString (nat (- i)) else nat_toString (nat i))"

text \<open>\<open>a || b\<close> for a string \<open>a\<close> that may be undefined: undefined and the empty string are
  falsy.\<close>

definition orElse :: "string option \<Rightarrow> string \<Rightarrow> string" where
  "orElse a b = (case a of None \<Rightarrow> b | Some x \<Rightarrow> if x \<noteq> [] then x else b)"

text \<open>\<open>s.substring(i, j)\<close> for \<open>0 \<le> i \<le> j\<close>, and \<open>toLowerCase\<close> on the ASCII range, where
  Telegram's usernames live (other units are left as they are).\<close>

definition substring :: "string \<Rightarrow> nat \<Rightarrow> nat \<Rightarrow> string" where
  "substring s i j = take (j - i) (drop i s)"

definition lower_unit :: "char \<Rightarrow> char" where
  "lower_unit ch =
     (if 65 \<le> (of_char ch :: nat) \<and> (of_char ch :: nat) \<le> 90
      then char_of ((of_char ch :: nat) + 32) else ch)"

definition toLowerCase :: "string \<Rightarrow> string" where
  "toLowerCase s = map lower_unit s"

subsection \<open>The handlers registered by connect\<close>

definition userId_of :: "ctx \<Rightarrow> string" where
  "userId_of c = (case ctx_from c of None \<Rightarrow> [] | Some u \<Rightarrow> toString (user_id u))"

text \<open>The allowlist test every guarded handler starts with:
  \<open>TELEGRAM_ALLOWED_USERS.size > 0 && !TELEGRAM_ALLOWED_USERS.has(userId)\<close>.\<close>

definition blocked :: "config \<Rightarrow> ctx \<Rightarrow> bool" where
  "blocked cfg c \<longleftrightarrow>
     TELEGRAM_ALLOWED_USERS cfg \<noteq> [] \<and> userId_of c \<notin> set (TELEGRAM_ALLOWED_USERS cfg)"

definition chatJid_of :: "ctx \<Rightarrow> string" where
  "chatJid_of c = ''tg:'' @ toString (chat_id (chat c))"

definition senderName_of :: "ctx \<Rightarrow> string" where
  "senderName_of c =
     (case ctx_from c of
        None \<Rightarrow> ''Unknown''
      | Some u \<Rightarrow>
          orElse (Some (first_name u))
            (orElse (username u) (orElse (Some (toString (user_id u))) ''Unknown'')))"

definition command_chatid :: "ctx \<Rightarrow> effect list" where
  "command_chatid c =
     [Reply (''Chat ID: `tg:'' @ toString (chat_id (chat c)) @ ''`'' @ [CHR 0x0A] @
             ''Name: '' @
             (if chat_type (chat c) = ''private''
              then orElse (map_option first_name (ctx_from c)) ''Private''
              else orElse (title (chat c)) ''Unknown'') @ [CHR 0x0A] @
             ''Type: '' @ chat_type (chat c))]"

definition command_ping :: "config \<Rightarrow> effect list" where
  "command_ping cfg = [Reply (ASSISTANT_NAME cfg @ '' is online.'')]"

definition adminGuard ::
  "config \<Rightarrow> TelegramChannelOpts \<Rightarrow> ctx \<Rightarrow> string option \<times> effect list" where
  "adminGuard cfg opts c =
     (if blocked cfg c then (None, [])
      else
        (case map_of (registeredGroups opts) (chatJid_of c) of
           None \<Rightarrow> (None, [Reply ''This chat is not registered.''])
         | Some grp \<Rightarrow>
             (case adminCommands opts of
                None \<Rightarrow> (None, [Reply ''Admin commands not available.''])
              | Some ac \<Rightarrow> (Some (folder grp), []))))"

text \<open>
  The three commands behind \<open>adminGuard\<close> differ in the admin command they call:
  \<open>call\<close> is its effect and \<open>cmd\<close> its answer. \<open>if (!folder) return\<close> also returns on an
  empty folder name. An exception in a handler reaches \<open>bot.catch\<close>, which logs it.
\<close>

definition guarded_command ::
  "(string \<Rightarrow> effect) \<Rightarrow> (AdminCommands \<Rightarrow> string \<Rightarrow> exn + string) \<Rightarrow> config
     \<Rightarrow> TelegramChannelOpts \<Rightarrow> ctx \<Rightarrow> effect list" where
  "guarded_command call cmd cfg opts c =
     (case adminGuard cfg opts c of
        (None, effs) \<Rightarrow> effs
      | (Some folder', effs) \<Rightarrow>
          if folder' = [] then effs
          else
            (case adminCommands opts of
               None \<Rightarrow> effs @ [Log ''error'' ''Telegram bot error'']
             | Some ac \<Rightarrow>
                 effs @ [call folder'] @
                 (case cmd ac folder' of
                    Inl err \<Rightarrow> [Log ''error'' ''Telegram bot error'']
                  | Inr result \<Rightarrow> [Reply result])))"

definition command_rebuild :: "config \<Rightarrow> TelegramChannelOpts \<Rightarrow> ctx \<Rightarrow> effect list" where
  "command_rebuild cfg opts c =
     (if blocked cfg c then []
      else
        (case adminCommands opts of
           None \<Rightarrow> [Reply ''Admin commands not available.'']
         | Some ac \<Rightarrow>
             [Reply ''Rebuilding container image...'', RebuildContainer] @
             (case rebuildContainer ac of
                Inl err \<Rightarrow> [Log ''error'' ''Telegram bot error'']
              | Inr result \<Rightarrow> [Reply result])))"

text \<open>The translation of a mention of the bot into the trigger format (the
  \<open>message:text\<close> handler, between the computation of \<open>chatName\<close> and \<open>onChatMetadata\<close>).\<close>

definition isBotMentioned :: "string \<Rightarrow> string \<Rightarrow> entity list \<Rightarrow> bool" where
  "isBotMentioned botUsername content' ents =
     list_ex (\<lambda>e. if entity_type e = ''mention''
                   then toLowerCase (substring content' (offset e) (offset e + entity_length e))
                        = ''@'' @ botUsername
                   else False) ents"

definition translated :: "config \<Rightarrow> ctx \<Rightarrow> string" where
  "translated cfg c =
     (case map_option toLowerCase (me_username c) of
        None \<Rightarrow> msg_text (message c)
      | Some botUsername \<Rightarrow>
          if botUsername \<noteq> [] then
            (if isBotMentioned botUsername (msg_text (message c))
                  (case entities (message c) of None \<Rightarrow> [] | Some es \<Rightarrow> es)
                \<and> \<not> TRIGGER_PATTERN cfg (msg_text (message c))
             then ''@'' @ ASSISTANT_NAME cfg @ '' '' @ msg_text (message c)
             else msg_text (message c))
          else msg_text (message c))"

definition on_message_text :: "config \<Rightarrow> TelegramChannelOpts \<Rightarrow> ctx \<Rightarrow> effect list" where
  "on_message_text cfg opts c =
     (if take 1 (msg_text (message c)) = ''/'' then []
      else if blocked cfg c then [Log ''debug'' ''Ignoring message from unauthorized user'']
      else
        OnChatMetadata (chatJid_of c) (ISO (date (message c) * 1000))
          (Some (if chat_type (chat c) = ''private'' then senderName_of c
                 else orElse (title (chat c)) (chatJid_of c))) #
        (case map_of (registeredGroups opts) (chatJid_of c) of
           None \<Rightarrow> [Log ''debug'' ''Message from unregistered Telegram chat'']
         | Some grp \<Rightarrow>
             [OnMessage (chatJid_of c)
                \<lparr>id = toString (message_id (message c)),
                 chat_jid = chatJid_of c,
                 sender = userId_of c,
                 sender_name = senderName_of c,
                 content = translated cfg c,
                 timestamp = ISO (date (message c) * 1000),
                 is_from_me = False\<rparr>,
              Log ''info'' ''Telegram message stored'']))"

definition storeNonText ::
  "config \<Rightarrow> TelegramChannelOpts \<Rightarrow> ctx \<Rightarrow> string \<Rightarrow> effect list" where
  "storeNonText cfg opts c placeholder =
     (if blocked cfg c then []
      else
        (case map_of (registeredGroups opts) (chatJid_of c) of
           None \<Rightarrow> []
         | Some grp \<Rightarrow>
             [OnChatMetadata (chatJid_of c) (ISO (date (message c) * 1000)) None,
              OnMessage (chatJid_of c)
                \<lparr>id = toString (message_id (message c)),
                 chat_jid = chatJid_of c,
                 sender = userId_of c,
                 sender_name = senderName_of c,
                 content = placeholder @
                   (case caption (message c) of
                      None \<Rightarrow> []
                    | Some cap \<Rightarrow> if cap \<noteq> [] then '' '' @ cap else []),
                 timestamp = ISO (date (message c) * 1000),
                 is_from_me = False\<rparr>]))"

text \<open>
  grammY routes an update to the first handler whose filter matches; a command handler
  does not pass the update on. The routing is the library's, so an update comes with the
  handler it reaches: one of the six commands, \<open>message:text\<close> (every other text message,
  also one that starts with a slash and is no registered command), or one of the
  non-text kinds.
\<close>

datatype command = Chatid | Ping | Reset_session | Reset_memory | Restart | Rebuild

datatype update =
    Command command
  | MessageText
  | MessagePhoto
  | MessageVideo
  | MessageVoice
  | MessageAudio
  | MessageDocument
  | MessageSticker
  | MessageLocation
  | MessageContact

fun handle :: "config \<Rightarrow> TelegramChannelOpts \<Rightarrow> update \<Rightarrow> ctx \<Rightarrow> effect list" where
  "handle cfg opts (Command Chatid) c = command_chatid c"
| "handle cfg opts (Command Ping) c = command_ping cfg"
| "handle cfg opts (Command Reset_session) c =
     guarded_command ResetSession resetSession cfg opts c"
| "handle cfg opts (Command Reset_memory) c =
     guarded_command ResetMemory resetMemory cfg opts c"
| "handle cfg opts (Command Restart) c =
     guarded_command RestartContainer restartContainer cfg opts c"
| "handle cfg opts (Command Rebuild) c = command_rebuild cfg opts c"
| "handle cfg opts MessageText c = on_message_text cfg opts c"
| "handle cfg opts MessagePhoto c = storeNonText cfg opts c ''[Photo]''"
| "handle cfg opts MessageVideo c = storeNonText cfg opts c ''[Video]''"
| "handle cfg opts MessageVoice c = storeNonText cfg opts c ''[Voice message]''"
| "handle cfg opts MessageAudio c = storeNonText cfg opts c ''[Audio]''"
| "handle cfg opts MessageDocument c =
     storeNonText cfg opts c
       (''[Document: '' @ orElse (document_file_name (message c)) ''file'' @ '']'')"
| "handle cfg opts MessageSticker c =
     storeNonText cfg opts c
       (''[Sticker '' @ (case sticker_emoji (message c) of None \<Rightarrow> [] | Some e \<Rightarrow> e) @ '']'')"
| "handle cfg opts MessageLocation c = storeNonText cfg opts c ''[Location]''"
| "handle cfg opts MessageContact c = storeNonText cfg opts c ''[Contact]''"

text \<open>The effects that reach the core: the two callbacks and the admin commands.\<close>

fun reaches_core :: "effect \<Rightarrow> bool" where
  "reaches_core (OnChatMetadata j t n) = True"
| "reaches_core (OnMessage j m) = True"
| "reaches_core (ResetSession f) = True"
| "reaches_core (ResetMemory f) = True"
| "reaches_core (RestartContainer f) = True"
| "reaches_core RebuildContainer = True"
| "reaches_core e = False"


section \<open>Concrete scenarios\<close>

text \<open>
  A configuration with the main folder \<open>main\<close> and the assistant \<open>Andy\<close> (the trigger tests
  for a leading \<open>@andy\<close> in any case), five registered groups of which \<open>research\<close> may
  delegate to \<open>browser\<close> and \<open>intern\<close> lists the main folder, and a host at rest where every
  write succeeds.
\<close>

definition example_config :: config where
  "example_config =
     \<lparr>DATA_DIR = ''data'', MAIN_GROUP_FOLDER = ''main'', ASSISTANT_NAME = ''Andy'',
      TELEGRAM_ALLOWED_USERS = [''1001''],
      TRIGGER_PATTERN = (\<lambda>s. take 5 (toLowerCase s) = ''@andy'')\<rparr>"

definition example_group :: "string \<Rightarrow> string \<Rightarrow> string list option \<Rightarrow> RegisteredGroup" where
  "example_group jid' folder' allowed =
     \<lparr>jid = Some jid', name = folder', folder = folder', trigger = ''@Andy'',
      added_at = ''2024-01-01T00:00:00.000Z'',
      containerConfig =
        (case allowed of
           None \<Rightarrow> None
         | Some fs \<Rightarrow>
             Some \<lparr>additionalMounts = None, timeout = None, allowDelegation = Some fs\<rparr>)\<rparr>"

definition example_groups :: "(string \<times> RegisteredGroup) list" where
  "example_groups =
     [(''tg:1'', example_group ''tg:1'' ''main'' None),
      (''tg:2'', example_group ''tg:2'' ''gmail-reader'' None),
      (''tg:3'', example_group ''tg:3'' ''research'' (Some [''browser''])),
      (''tg:4'', example_group ''tg:4'' ''finance'' None),
      (''tg:5'', example_group ''tg:5'' ''browser'' None),
      (''tg:6'', example_group ''tg:6'' ''intern'' (Some [''main'']))]"

definition host0 :: host where
  "host0 =
     \<lparr>activeDelegations = 0, written = [], writeError = (\<lambda>file. None), containerRuns = [],
      suspended = []\<rparr>"

text \<open>Tasks of one source group processed one after the other, none of the spawned runs
  having settled.\<close>

definition process_all ::
  "config \<Rightarrow> (string \<times> RegisteredGroup) list \<Rightarrow> string \<Rightarrow> task list \<Rightarrow> host \<Rightarrow> host" where
  "process_all cfg groups sourceGroup tasks s =
     fold (\<lambda>t s'. snd (processTaskIpc cfg groups [] sourceGroup t s')) tasks s"


text \<open>An error artifact for request \<open>r1\<close> that the host writes during the sleep that starts
  two seconds into the wait.\<close>

definition example_world :: "nat \<Rightarrow> inbox \<Rightarrow> inbox" where
  "example_world t dir =
     (if t = 2000
      then dir(''delegate-error-r1.json'' :=
                 Some (Error ''Error: spawn failed'' (Some ''gmail-reader'')))
      else dir)"

text \<open>
  A text message of user \<open>uid\<close> (first name Dana) in the group chat \<open>cid\<close>, read by the bot
  \<open>Andy_Bot\<close>; and channel options over the example groups with admin commands that
  answer.
\<close>

definition example_ctx :: "int \<Rightarrow> int \<Rightarrow> string \<Rightarrow> entity list \<Rightarrow> ctx" where
  "example_ctx uid cid body ents =
     \<lparr>ctx_from = Some \<lparr>user_id = uid, first_name = ''Dana'', username = None\<rparr>,
      chat = \<lparr>chat_id = cid, chat_type = ''group'', title = Some ''Family''\<rparr>,
      me_username = Some ''Andy_Bot'',
      message = \<lparr>msg_text = body, date = 1700000000, message_id = 7,
                 entities = Some ents, caption = None, document_file_name = None,
                 sticker_emoji = None\<rparr>\<rparr>"

definition example_opts :: TelegramChannelOpts where
  "example_opts =
     \<lparr>registeredGroups = example_groups,
      adminCommands = Some \<lparr>resetSession = (\<lambda>f. Inr ''Session reset.''),
                            resetMemory = (\<lambda>f. Inr ''Memory reset.''),
                            restartContainer = (\<lambda>f. Inr ''Restarted.''),
                            rebuildContainer = Inr ''Rebuilt.''\<rparr>\<rparr>"

text \<open>The messages handed to \<open>onMessage\<close>, in order.\<close>

definition delivered :: "effect list \<Rightarrow> NewMessage list" where
  "delivered effs = concat (map (\<lambda>e. case e of OnMessage j m \<Rightarrow> [m] | _ \<Rightarrow> []) effs)"

section \<open>Properties of the delegation pool\<close>


























section \<open>Properties of the delegation coordinator\<close>

subsection \<open>The result text\<close>

lemma example_paths:
  "resultFile example_config ''main'' ''r1'' = ''data/ipc/main/input/delegate-result-r1.json''"
  "errorFile example_config ''main'' ''r1'' = ''data/ipc/main/input/delegate-error-r1.json''"
  "errorFile example_config ''research'' ''r1'' = ''data/ipc/research/input/delegate-error-r1.json''"
  by code_simp+

lemma streamed_foldl:
  "foldl onOutput acc outs = acc @ [r. Some r \<leftarrow> outs, r \<noteq> []]"
  by (induction outs arbitrary: acc) (auto simp: onOutput_def split: option.splits)

lemma streamed_eq: "streamed outs = [r. Some r \<leftarrow> outs, r \<noteq> []]"
  by (simp add: streamed_def streamed_foldl)

lemma join_concat: "join sep (x # xs) = x @ concat (map (\<lambda>y. sep @ y) xs)"
  by (induction sep "x # xs" arbitrary: x xs rule: join.induct) auto

lemma successResult_fragments:
  assumes "\<forall>x \<in> set frags. x \<noteq> []"
  shows "successResult frags output_result =
     (case frags of
        [] \<Rightarrow> (case output_result of
                 None \<Rightarrow> ''(no output)''
               | Some r \<Rightarrow> if r \<noteq> [] then r else ''(no output)'')
      | f # fs \<Rightarrow> f @ concat (map (\<lambda>g. [CHR 0x0A, CHR 0x0A] @ g) fs))"
proof (cases frags)
  case Nil
  then show ?thesis by (simp add: successResult_def)
next
  case (Cons f fs)
  with assms have "f \<noteq> []" by simp
  have j: "join paragraph_break (f # fs) =
      f @ concat (map (\<lambda>g. [CHR 0x0A, CHR 0x0A] @ g) fs)"
    unfolding paragraph_break_def by (rule join_concat)
  show ?thesis
    unfolding successResult_def Cons j using \<open>f \<noteq> []\<close> by simp
qed

lemma fragments_nonempty: "\<forall>x \<in> set [r. Some r \<leftarrow> outs, r \<noteq> []]. x \<noteq> []"
  by (auto split: option.splits)

lemma successResult_nonempty: "successResult results output_result \<noteq> []"
  by (auto simp: successResult_def split: option.splits)

lemma written_resolved:
  assumes "writeError s (resultFile cfg sourceGroup requestId) = None"
  shows "written (snd (handleDelegation cfg secrets' (Resolves outs output_result) sourceGroup
                  target requestId prompt' timeoutSeconds s)) =
         written s @
           [(resultFile cfg sourceGroup requestId,
             Whole (Success (successResult [r. Some r \<leftarrow> outs, r \<noteq> []] output_result)
                      (folder target)))]"
  using assms
  by (simp add: handleDelegation_def handleDelegation_resume_def handleDelegation_start_def
      fs_writeFileSync_def Let_def streamed_eq)

text \<open>
  Claim C5. When the delegated run completes and the success file is written, the file
  holds the target's folder and, as result text, the streamed fragments in arrival
  order, the first as it is and every later one after a paragraph break (two newlines);
  the fragments are the non-empty result texts handed to the streaming callback, an
  output with a null or empty result adding nothing. With no fragment the text is the
  \<open>result\<close> of the run's final output, and when that is null or empty it is the literal
  \<open>(no output)\<close>. The text is never empty. A run that streams \<open>Alice\<close> and \<open>Bob\<close> yields
  \<open>Alice\<close>, two newlines, \<open>Bob\<close>.
\<close>

theorem delegation_result_text:
  assumes "writeError s (resultFile cfg sourceGroup requestId) = None"
  shows "written (snd (handleDelegation cfg secrets' (Resolves outs output_result) sourceGroup
                  target requestId prompt' timeoutSeconds s)) =
           written s @
             [(resultFile cfg sourceGroup requestId,
               Whole (Success
                 (case [r. Some r \<leftarrow> outs, r \<noteq> []] of
                    [] \<Rightarrow> (case output_result of
                             None \<Rightarrow> ''(no output)''
                           | Some r \<Rightarrow> if r \<noteq> [] then r else ''(no output)'')
                  | f # fs \<Rightarrow> f @ concat (map (\<lambda>g. [CHR 0x0A, CHR 0x0A] @ g) fs))
                 (folder target)))] \<and>
         (case [r. Some r \<leftarrow> outs, r \<noteq> []] of
            [] \<Rightarrow> (case output_result of
                     None \<Rightarrow> ''(no output)''
                   | Some r \<Rightarrow> if r \<noteq> [] then r else ''(no output)'')
          | f # fs \<Rightarrow> f @ concat (map (\<lambda>g. [CHR 0x0A, CHR 0x0A] @ g) fs)) \<noteq> [] \<and>
         written (snd (handleDelegation cfg secrets' (Resolves [Some ''Alice'', Some ''Bob'']
                  output_result) sourceGroup target requestId prompt' timeoutSeconds s)) =
           written s @
             [(resultFile cfg sourceGroup requestId,
               Whole (Success ''Alice\<newline>\<newline>Bob'' (folder target)))]"
proof -
  have shape: "successResult [r. Some r \<leftarrow> outs, r \<noteq> []] output_result =
      (case [r. Some r \<leftarrow> outs, r \<noteq> []] of
         [] \<Rightarrow> (case output_result of
                  None \<Rightarrow> ''(no output)''
                | Some r \<Rightarrow> if r \<noteq> [] then r else ''(no output)'')
       | f # fs \<Rightarrow> f @ concat (map (\<lambda>g. [CHR 0x0A, CHR 0x0A] @ g) fs))" for outs
    using fragments_nonempty by (rule successResult_fragments)
  show ?thesis
  proof (intro conjI)
    show "written (snd (handleDelegation cfg secrets' (Resolves outs output_result) sourceGroup
                  target requestId prompt' timeoutSeconds s)) =
           written s @
             [(resultFile cfg sourceGroup requestId,
               Whole (Success
                 (case [r. Some r \<leftarrow> outs, r \<noteq> []] of
                    [] \<Rightarrow> (case output_result of
                             None \<Rightarrow> ''(no output)''
                           | Some r \<Rightarrow> if r \<noteq> [] then r else ''(no output)'')
                  | f # fs \<Rightarrow> f @ concat (map (\<lambda>g. [CHR 0x0A, CHR 0x0A] @ g) fs))
                 (folder target)))]"
      unfolding written_resolved [OF assms] shape ..
    show "(case [r. Some r \<leftarrow> outs, r \<noteq> []] of
            [] \<Rightarrow> (case output_result of
                     None \<Rightarrow> ''(no output)''
                   | Some r \<Rightarrow> if r \<noteq> [] then r else ''(no output)'')
          | f # fs \<Rightarrow> f @ concat (map (\<lambda>g. [CHR 0x0A, CHR 0x0A] @ g) fs)) \<noteq> []"
      unfolding shape [symmetric] by (rule successResult_nonempty)
    show "written (snd (handleDelegation cfg secrets' (Resolves [Some ''Alice'', Some ''Bob'']
                  output_result) sourceGroup target requestId prompt' timeoutSeconds s)) =
           written s @
             [(resultFile cfg sourceGroup requestId,
               Whole (Success ''Alice\<newline>\<newline>Bob'' (folder target)))]"
      unfolding written_resolved [OF assms] shape by simp
  qed
qed

text \<open>The main group delegates to \<open>gmail-reader\<close>: three fragments among a null and an empty
  output are joined in order, the final result \<open>done\<close> being ignored; a run that streams
  nothing usable and has no final result yields \<open>(no output)\<close>; one that streams nothing
  and ends with \<open>done\<close> yields \<open>done\<close>.\<close>

theorem delegation_result_text_witness:
  "written (snd (handleDelegation example_config []
          (Resolves [Some ''Alice'', None, Some ''Bob'', Some [], Some ''Carol''] (Some ''done''))
          ''main'' (example_group ''tg:2'' ''gmail-reader'' None) ''r1''
          ''list unread senders'' 60 host0))
     = [(''data/ipc/main/input/delegate-result-r1.json'',
         Whole (Success ''Alice\<newline>\<newline>Bob\<newline>\<newline>Carol'' ''gmail-reader''))] \<and>
   written (snd (handleDelegation example_config [] (Resolves [None, Some []] None) ''main''
          (example_group ''tg:2'' ''gmail-reader'' None) ''r1'' ''list unread senders'' 60 host0))
     = [(''data/ipc/main/input/delegate-result-r1.json'',
         Whole (Success ''(no output)'' ''gmail-reader''))] \<and>
   written (snd (handleDelegation example_config [] (Resolves [] (Some ''done'')) ''main''
          (example_group ''tg:2'' ''gmail-reader'' None) ''r1'' ''list unread senders'' 60 host0))
     = [(''data/ipc/main/input/delegate-result-r1.json'',
         Whole (Success ''done'' ''gmail-reader''))]"
proof -
  have writable: "writeError host0 (resultFile example_config ''main'' ''r1'') = None"
    by (simp add: host0_def)
  show ?thesis
    using delegation_result_text [OF writable, of "[]"
        "[Some ''Alice'', None, Some ''Bob'', Some [], Some ''Carol'']" "Some ''done''"
        "example_group ''tg:2'' ''gmail-reader'' None" "''list unread senders''" 60]
      delegation_result_text [OF writable, of "[]" "[None, Some []]" None
        "example_group ''tg:2'' ''gmail-reader'' None" "''list unread senders''" 60]
      delegation_result_text [OF writable, of "[]" "[]" "Some ''done''"
        "example_group ''tg:2'' ''gmail-reader'' None" "''list unread senders''" 60]
    by (simp add: example_paths host0_def example_group_def)
qed

subsection \<open>One outcome file\<close>

text \<open>
  Claim C3, as amended. For a call of \<open>handleDelegation\<close> whose awaited run settles: provided
  the write of the error file does not throw, \<open>handleDelegation\<close> lets no exception out and
  leaves exactly one whole outcome: the error file when the run rejected; the success
  file alone when the run resolved and its write succeeded; the error file alone, holding
  the write's error, when the run resolved and the write of the success file failed at
  the open. When the write of the success file failed after the open, the error file is
  written beside the truncated success file: that is the one case in which both files
  exist.
\<close>

theorem handleDelegation_one_outcome:
  assumes "writeError s (errorFile cfg sourceGroup requestId) = None"
  shows "fst (handleDelegation cfg secrets' r sourceGroup target requestId prompt'
                timeoutSeconds s) = None \<and>
         written (snd (handleDelegation cfg secrets' r sourceGroup target requestId prompt'
                timeoutSeconds s)) =
           written s @
             (case r of
                Rejects err \<Rightarrow>
                  [(errorFile cfg sourceGroup requestId,
                    Whole (Error err (Some (folder target))))]
              | Resolves outs output_result \<Rightarrow>
                  (case writeError s (resultFile cfg sourceGroup requestId) of
                     None \<Rightarrow>
                       [(resultFile cfg sourceGroup requestId,
                         Whole (Success (successResult (streamed outs) output_result)
                                  (folder target)))]
                   | Some (OpenFails err) \<Rightarrow>
                       [(errorFile cfg sourceGroup requestId,
                         Whole (Error err (Some (folder target))))]
                   | Some (WriteFails err) \<Rightarrow>
                       [(resultFile cfg sourceGroup requestId, Truncated),
                        (errorFile cfg sourceGroup requestId,
                         Whole (Error err (Some (folder target))))]))"
proof (cases r)
  case (Rejects err)
  with assms show ?thesis
    by (simp add: handleDelegation_def handleDelegation_resume_def handleDelegation_start_def
        handleDelegation_catch_def fs_writeFileSync_def Let_def)
next
  case (Resolves outs output_result)
  show ?thesis
  proof (cases "writeError s (resultFile cfg sourceGroup requestId)")
    case None
    with assms Resolves show ?thesis
      by (simp add: handleDelegation_def handleDelegation_resume_def handleDelegation_start_def
          handleDelegation_catch_def fs_writeFileSync_def Let_def)
  next
    case (Some failure)
    with assms Resolves show ?thesis
      by (cases failure)
        (simp_all add: handleDelegation_def handleDelegation_resume_def
          handleDelegation_start_def handleDelegation_catch_def fs_writeFileSync_def Let_def)
  qed
qed

text \<open>A run that rejects, on a host where every write succeeds: the error file alone.\<close>

theorem handleDelegation_one_outcome_witness:
  "fst (handleDelegation example_config [] (Rejects ''Error: spawn failed'') ''main''
          (example_group ''tg:2'' ''gmail-reader'' None) ''r1'' ''list unread senders'' 60 host0)
     = None \<and>
   written (snd (handleDelegation example_config [] (Rejects ''Error: spawn failed'') ''main''
          (example_group ''tg:2'' ''gmail-reader'' None) ''r1'' ''list unread senders'' 60 host0))
     = [(''data/ipc/main/input/delegate-error-r1.json'',
         Whole (Error ''Error: spawn failed'' (Some ''gmail-reader'')))]"
proof -
  have writable: "writeError host0 (errorFile example_config ''main'' ''r1'') = None"
    by (simp add: host0_def)
  show ?thesis
    using handleDelegation_one_outcome [OF writable, of "[]" "Rejects ''Error: spawn failed''"
        "example_group ''tg:2'' ''gmail-reader'' None" "''list unread senders''" 60]
    by (simp add: example_paths host0_def example_group_def)
qed

text \<open>Claim C3 as stated fails twice. When the run rejects and the write of the error file
  throws as well (the input directory of the source group is missing), the exception of
  the write leaves \<open>handleDelegation\<close> and no outcome file is written. When the run
  resolves and the write of the success file fails after the open (the disk is full), a
  truncated success file and the error file are both left.\<close>

theorem handleDelegation_error_write_throws:
  "fst (handleDelegation example_config [] (Rejects ''Error: spawn failed'') ''main''
          (example_group ''tg:2'' ''gmail-reader'' None) ''r1'' ''list unread senders'' 60
          (host0\<lparr>writeError := (\<lambda>file. Some (OpenFails ''ENOENT''))\<rparr>)) = Some ''ENOENT'' \<and>
   written (snd (handleDelegation example_config [] (Rejects ''Error: spawn failed'') ''main''
          (example_group ''tg:2'' ''gmail-reader'' None) ''r1'' ''list unread senders'' 60
          (host0\<lparr>writeError := (\<lambda>file. Some (OpenFails ''ENOENT''))\<rparr>))) = [] \<and>
   written (snd (handleDelegation example_config [] (Resolves [Some ''Alice''] None) ''main''
          (example_group ''tg:2'' ''gmail-reader'' None) ''r1'' ''list unread senders'' 60
          (host0\<lparr>writeError := (\<lambda>file.
             if file = ''data/ipc/main/input/delegate-result-r1.json''
             then Some (WriteFails ''ENOSPC'') else None)\<rparr>))) =
     [(''data/ipc/main/input/delegate-result-r1.json'', Truncated),
      (''data/ipc/main/input/delegate-error-r1.json'',
       Whole (Error ''ENOSPC'' (Some ''gmail-reader'')))]"
  by (simp add: handleDelegation_def handleDelegation_resume_def handleDelegation_start_def
        handleDelegation_catch_def fs_writeFileSync_def Let_def host0_def example_paths
        example_group_def)

subsection \<open>The delegate case as written\<close>

text \<open>
  Claim C1 asks that a delegate request arriving while three delegation-spawned sessions
  are active fail at once with a busy error. The delegate case does not: four requests
  of the main group for \<open>gmail-reader\<close>, processed before any run settles, spawn four
  runs, leave four invocations suspended and write nothing; and with the counter at the
  limit (\<open>canDelegate\<close> false) a request spawns its run all the same and writes nothing.
\<close>

theorem delegate_at_limit_spawns:
  "map groupFolder (containerRuns (process_all example_config example_groups ''main''
      [Delegate ''r1'' ''gmail-reader'' ''ping'' 300, Delegate ''r2'' ''gmail-reader'' ''ping'' 300,
       Delegate ''r3'' ''gmail-reader'' ''ping'' 300, Delegate ''r4'' ''gmail-reader'' ''ping'' 300]
      host0)) = [''gmail-reader'', ''gmail-reader'', ''gmail-reader'', ''gmail-reader''] \<and>
   map (\<lambda>(src, tgt, rid). rid) (suspended (process_all example_config example_groups ''main''
      [Delegate ''r1'' ''gmail-reader'' ''ping'' 300, Delegate ''r2'' ''gmail-reader'' ''ping'' 300,
       Delegate ''r3'' ''gmail-reader'' ''ping'' 300, Delegate ''r4'' ''gmail-reader'' ''ping'' 300]
      host0)) = [''r1'', ''r2'', ''r3'', ''r4''] \<and>
   written (process_all example_config example_groups ''main''
      [Delegate ''r1'' ''gmail-reader'' ''ping'' 300, Delegate ''r2'' ''gmail-reader'' ''ping'' 300,
       Delegate ''r3'' ''gmail-reader'' ''ping'' 300, Delegate ''r4'' ''gmail-reader'' ''ping'' 300]
      host0) = [] \<and>
   canDelegate (host0\<lparr>activeDelegations := 3\<rparr>) = False \<and>
   map groupFolder (containerRuns (snd (processTaskIpc example_config example_groups [] ''main''
      (Delegate ''r4'' ''gmail-reader'' ''ping'' 300) (host0\<lparr>activeDelegations := 3\<rparr>))))
     = [''gmail-reader''] \<and>
   written (snd (processTaskIpc example_config example_groups [] ''main''
      (Delegate ''r4'' ''gmail-reader'' ''ping'' 300) (host0\<lparr>activeDelegations := 3\<rparr>))) = []"
  by (simp add: process_all_def handleDelegation_start_def host0_def example_groups_def
      example_group_def example_config_def canDelegate_def MAX_DELEGATION_CONTAINERS_def)

text \<open>
  Claim C4 asks that the authorization table decide every request, a non-main group
  being denied the main group even when its \<open>allowDelegation\<close> lists the main folder. The
  delegate case has no authorization statement: the request of \<open>intern\<close> (not the main
  group, \<open>allowDelegation\<close> listing \<open>main\<close>) for the main group spawns a run of the main
  group with \<open>isMain\<close> set, and no error is written.
\<close>

theorem delegate_to_main_not_denied:
  "fst (processTaskIpc example_config example_groups [] ''intern''
          (Delegate ''r1'' ''main'' ''ping'' 300) host0) = None \<and>
   containerRuns (snd (processTaskIpc example_config example_groups [] ''intern''
          (Delegate ''r1'' ''main'' ''ping'' 300) host0)) =
     [\<lparr>prompt = ''ping'', groupFolder = ''main'', chatJid = ''tg:1'', isMain = True,
       isScheduledTask = True, secrets = []\<rparr>] \<and>
   written (snd (processTaskIpc example_config example_groups [] ''intern''
          (Delegate ''r1'' ''main'' ''ping'' 300) host0)) = []"
  by (simp add: handleDelegation_start_def host0_def example_groups_def
      example_group_def example_config_def)

text \<open>
  Claim C6 asks that a request rejected by authorization get an error outcome at once,
  with no session spawned. The request of \<open>research\<close> (whose \<open>allowDelegation\<close> is
  \<open>browser\<close> alone) for \<open>finance\<close> is not rejected: a run of \<open>finance\<close> is spawned and no
  error is written.
\<close>

theorem unauthorized_delegate_spawns:
  "fst (processTaskIpc example_config example_groups [] ''research''
          (Delegate ''r1'' ''finance'' ''ping'' 300) host0) = None \<and>
   containerRuns (snd (processTaskIpc example_config example_groups [] ''research''
          (Delegate ''r1'' ''finance'' ''ping'' 300) host0)) =
     [\<lparr>prompt = ''ping'', groupFolder = ''finance'', chatJid = ''tg:4'', isMain = False,
       isScheduledTask = True, secrets = []\<rparr>] \<and>
   written (snd (processTaskIpc example_config example_groups [] ''research''
          (Delegate ''r1'' ''finance'' ''ping'' 300) host0)) = []"
  by (simp add: handleDelegation_start_def host0_def example_groups_def
      example_group_def example_config_def)

text \<open>
  The half of the rejection path that the delegate case does have: a request for a folder
  that no registered group has writes the unknown-group error to the source group's input
  directory (when that write succeeds), spawns nothing, suspends nothing and leaves the
  delegation counter as it was.
\<close>

theorem unknown_group_rejected:
  assumes "List.find (\<lambda>g. folder g = targetGroup) (map snd groups) = None"
    and "writeError s (errorFile cfg sourceGroup requestId) = None"
  shows "processTaskIpc cfg groups secrets' sourceGroup
           (Delegate requestId targetGroup prompt' timeoutSeconds) s =
         (None, s\<lparr>written := written s @
            [(errorFile cfg sourceGroup requestId, Whole (Error ''Unknown group'' None))]\<rparr>)"
  using assms by (simp add: writeIpcResult_def fs_writeFileSync_def)

theorem unknown_group_rejected_witness:
  "written (snd (processTaskIpc example_config example_groups [] ''research''
          (Delegate ''r1'' ''nowhere'' ''ping'' 300) host0)) =
     [(''data/ipc/research/input/delegate-error-r1.json'',
       Whole (Error ''Unknown group'' None))] \<and>
   containerRuns (snd (processTaskIpc example_config example_groups [] ''research''
          (Delegate ''r1'' ''nowhere'' ''ping'' 300) host0)) = [] \<and>
   activeDelegations (snd (processTaskIpc example_config example_groups [] ''research''
          (Delegate ''r1'' ''nowhere'' ''ping'' 300) host0)) = activeDelegations host0"
proof -
  have unregistered: "List.find (\<lambda>g. folder g = ''nowhere'') (map snd example_groups) = None"
    by (simp add: example_groups_def example_group_def)
  have writable: "writeError host0 (errorFile example_config ''research'' ''r1'') = None"
    by (simp add: host0_def)
  show ?thesis
    using unknown_group_rejected [OF unregistered writable, of "[]" "''ping''" 300]
    by (simp add: example_paths host0_def)
qed

section \<open>Properties of the requester's wait\<close>

lemma awaitResult_polls:
  "elapsed = m * DELEGATION_POLL_INTERVAL \<Longrightarrow> dir = polled world dir0 m \<Longrightarrow>
   \<exists>n\<ge>m. (\<forall>k. m \<le> k \<and> k < n \<longrightarrow> absent requestId (polled world dir0 k)) \<and>
     (n = m \<or> (n - 1) * DELEGATION_POLL_INTERVAL < timeoutMs) \<and>
     (case fst (awaitResult world requestId timeoutMs elapsed dir) of
        Outcome obj \<Rightarrow>
          (\<exists>f. (f = resultName requestId \<or>
                polled world dir0 n (resultName requestId) = None \<and> f = errorName requestId) \<and>
               polled world dir0 n f = Some obj \<and>
               snd (awaitResult world requestId timeoutMs elapsed dir) =
                 (polled world dir0 n)(f := None))
      | ClientTimeout \<Rightarrow>
          absent requestId (polled world dir0 n) \<and> timeoutMs \<le> n * DELEGATION_POLL_INTERVAL \<and>
          snd (awaitResult world requestId timeoutMs elapsed dir) = polled world dir0 n)"
proof (induction world requestId timeoutMs elapsed dir arbitrary: m rule: awaitResult.induct)
  case (1 world requestId timeoutMs elapsed dir)
  show ?case
  proof (cases "dir (resultName requestId)")
    case (Some obj)
    then have eq: "awaitResult world requestId timeoutMs elapsed dir =
        (Outcome obj, dir(resultName requestId := None))"
      by (simp add: awaitResult.simps [of world requestId timeoutMs elapsed dir])
    from Some "1.prems"(2) show ?thesis
      unfolding eq by (intro exI [of _ m]) auto
  next
    case None
    note noresult = this
    show ?thesis
    proof (cases "dir (errorName requestId)")
      case (Some obj)
      with noresult have eq: "awaitResult world requestId timeoutMs elapsed dir =
          (Outcome obj, dir(errorName requestId := None))"
        by (simp add: awaitResult.simps [of world requestId timeoutMs elapsed dir])
      from Some noresult "1.prems"(2) show ?thesis
        unfolding eq by (intro exI [of _ m]) auto
    next
      case None
      note noerror = this
      show ?thesis
      proof (cases "timeoutMs \<le> elapsed")
        case True
        with noresult noerror have eq: "awaitResult world requestId timeoutMs elapsed dir =
            (ClientTimeout, dir)"
          by (simp add: awaitResult.simps [of world requestId timeoutMs elapsed dir])
        from True noresult noerror "1.prems" show ?thesis
          unfolding eq by (intro exI [of _ m]) (auto simp: absent_def)
      next
        case False
        have step: "awaitResult world requestId timeoutMs elapsed dir =
            awaitResult world requestId timeoutMs (elapsed + DELEGATION_POLL_INTERVAL)
              (world elapsed dir)"
          using noresult noerror False
          by (simp add: awaitResult.simps [of world requestId timeoutMs elapsed dir])
        have e: "elapsed + DELEGATION_POLL_INTERVAL = Suc m * DELEGATION_POLL_INTERVAL"
          using "1.prems"(1) by simp
        have d: "world elapsed dir = polled world dir0 (Suc m)"
          using "1.prems" by simp
        from "1.IH" [OF noresult noerror False e d]
        obtain n where n: "Suc m \<le> n"
          "\<forall>k. Suc m \<le> k \<and> k < n \<longrightarrow> absent requestId (polled world dir0 k)"
          "n = Suc m \<or> (n - 1) * DELEGATION_POLL_INTERVAL < timeoutMs"
          "(case fst (awaitResult world requestId timeoutMs (elapsed + DELEGATION_POLL_INTERVAL)
                 (world elapsed dir)) of
        Outcome obj \<Rightarrow>
          (\<exists>f. (f = resultName requestId \<or>
                polled world dir0 n (resultName requestId) = None \<and> f = errorName requestId) \<and>
               polled world dir0 n f = Some obj \<and>
               snd (awaitResult world requestId timeoutMs (elapsed + DELEGATION_POLL_INTERVAL)
                 (world elapsed dir)) =
                 (polled world dir0 n)(f := None))
      | ClientTimeout \<Rightarrow>
          absent requestId (polled world dir0 n) \<and> timeoutMs \<le> n * DELEGATION_POLL_INTERVAL \<and>
          snd (awaitResult world requestId timeoutMs (elapsed + DELEGATION_POLL_INTERVAL)
                 (world elapsed dir)) = polled world dir0 n)"
          by blast
        have m_absent: "absent requestId (polled world dir0 m)"
          using noresult noerror "1.prems"(2) by (simp add: absent_def)
        have a: "\<forall>k. m \<le> k \<and> k < n \<longrightarrow> absent requestId (polled world dir0 k)"
        proof (intro allI impI)
          fix k assume k: "m \<le> k \<and> k < n"
          show "absent requestId (polled world dir0 k)"
          proof (cases "k = m")
            case True
            with m_absent show ?thesis by simp
          next
            case False
            with k have "Suc m \<le> k \<and> k < n" by simp
            with n(2) show ?thesis by blast
          qed
        qed
        have b: "n = m \<or> (n - 1) * DELEGATION_POLL_INTERVAL < timeoutMs"
        proof (cases "n = Suc m")
          case True
          with False "1.prems"(1) show ?thesis by simp
        next
          case False
          with n(3) show ?thesis by simp
        qed
        from n(1) have "m \<le> n" by simp
        with a b n(4) show ?thesis
          unfolding step by blast
      qed
    qed
  qed
qed

text \<open>
  Claim C7. The wait always returns. It polls at the times 0, 2000, 4000, ... (the poll
  interval apart) and stops at the first poll \<open>n\<close> that finds an artifact or is not before
  the timeout: every earlier poll found neither artifact and began before the timeout.
  If poll \<open>n\<close> finds the success artifact, or else the error artifact, the wait returns
  the object the file holds and leaves the directory as that poll saw it with this one
  file deleted. Otherwise neither artifact is present, the timeout has elapsed, and the
  wait returns the client-side timeout, leaving the directory untouched.
\<close>

theorem awaitResult_consumes_or_times_out:
  "\<exists>n. (\<forall>k<n. absent requestId (polled world dir k)) \<and>
     (n = 0 \<or> (n - 1) * DELEGATION_POLL_INTERVAL < timeoutMs) \<and>
     (case fst (awaitResult world requestId timeoutMs 0 dir) of
        Outcome obj \<Rightarrow>
          (\<exists>f. (f = resultName requestId \<or>
                polled world dir n (resultName requestId) = None \<and> f = errorName requestId) \<and>
               polled world dir n f = Some obj \<and>
               snd (awaitResult world requestId timeoutMs 0 dir) = (polled world dir n)(f := None))
      | ClientTimeout \<Rightarrow>
          absent requestId (polled world dir n) \<and> timeoutMs \<le> n * DELEGATION_POLL_INTERVAL \<and>
          snd (awaitResult world requestId timeoutMs 0 dir) = polled world dir n)"
  using awaitResult_polls [of 0 0 dir world dir requestId timeoutMs] by auto

text \<open>The error artifact of \<open>r1\<close> appears during the second sleep: the third poll returns
  it and deletes the file. Nothing ever appears for \<open>r2\<close>: the wait of four seconds times
  out.\<close>

theorem awaitResult_witness:
  "fst (awaitResult example_world ''r1'' 300000 0 (\<lambda>f. None)) =
     Outcome (Error ''Error: spawn failed'' (Some ''gmail-reader'')) \<and>
   snd (awaitResult example_world ''r1'' 300000 0 (\<lambda>f. None)) ''delegate-error-r1.json'' = None \<and>
   fst (awaitResult example_world ''r2'' 4000 0 (\<lambda>f. None)) = ClientTimeout"
  using awaitResult_consumes_or_times_out [of "''r1''" example_world "\<lambda>f. None" 300000]
  by (simp add: awaitResult.simps example_world_def resultName_def errorName_def
      DELEGATION_POLL_INTERVAL_def)

section \<open>Properties of the Telegram channel\<close>

subsection \<open>sendMessage\<close>

lemma sendLoop_all_resolve:
  "\<forall>k. api k = None \<Longrightarrow>
   snd (sendLoop api numericId body i k) = None \<and>
   concat (map snd (fst (sendLoop api numericId body i k))) = drop i body \<and>
   (\<forall>c \<in> set (fst (sendLoop api numericId body i k)).
      fst c = numericId \<and> length (snd c) \<le> MAX_LENGTH \<and> snd c \<noteq> [])"
proof (induction api numericId body i k rule: sendLoop.induct)
  case (1 api numericId body i k)
  show ?case
  proof (cases "i < length body")
    case False
    then show ?thesis by (simp add: sendLoop.simps [of api numericId body i k])
  next
    case True
    have none: "api k = None" using "1.prems" by simp
    obtain calls e where rest: "sendLoop api numericId body (i + MAX_LENGTH) (Suc k) = (calls, e)"
      by (cases "sendLoop api numericId body (i + MAX_LENGTH) (Suc k)")
    from "1.IH" [OF True none "1.prems"] rest
    have ih: "e = None" "concat (map snd calls) = drop (i + MAX_LENGTH) body"
      "\<forall>c \<in> set calls. fst c = numericId \<and> length (snd c) \<le> MAX_LENGTH \<and> snd c \<noteq> []"
      by simp_all
    have unfold: "sendLoop api numericId body i k =
        ((numericId, slice body i (i + MAX_LENGTH)) # calls, e)"
      using True none rest by (simp add: sendLoop.simps [of api numericId body i k])
    have cat: "slice body i (i + MAX_LENGTH) @ drop (i + MAX_LENGTH) body = drop i body"
      by (simp add: slice_def add.commute [of i] drop_drop [symmetric] del: drop_drop)
    have len: "length (slice body i (i + MAX_LENGTH)) \<le> MAX_LENGTH"
      by (simp add: slice_def)
    have ne: "slice body i (i + MAX_LENGTH) \<noteq> []"
      using True by (simp add: slice_def MAX_LENGTH_def)
    show ?thesis
      unfolding unfold using ih cat len ne by simp
  qed
qed


lemma apiCalls_sent:
  "apiCalls (map (\<lambda>(c, t). ApiSendMessage c t) calls @ [Log l m]) = calls"
  by (induction calls) (auto simp: apiCalls_def)

lemma sendMessage_never_throws: "fst (sendMessage this_bot api jid' body) = None"
  by (simp add: sendMessage_def split: prod.splits option.splits)

text \<open>
  Claim C8, as amended. \<open>sendMessage\<close> never lets an exception out. When the bot is set and
  no API call fails: a text of at most 4096 units is sent as one call carrying the text;
  in every case the texts of the calls, concatenated in the order of the calls, are the
  original text, every call goes to the numeric id of the jid, and every call carries at
  most 4096 units.
\<close>

theorem sendMessage_chunks:
  "fst (sendMessage this_bot api jid' body) = None \<and>
   (this_bot \<and> (\<forall>k. api k = None) \<longrightarrow>
      (length body \<le> MAX_LENGTH \<longrightarrow>
         apiCalls (snd (sendMessage this_bot api jid' body)) = [(numericId_of jid', body)]) \<and>
      concat (map snd (apiCalls (snd (sendMessage this_bot api jid' body)))) = body \<and>
      (\<forall>c \<in> set (apiCalls (snd (sendMessage this_bot api jid' body))).
         fst c = numericId_of jid' \<and> length (snd c) \<le> MAX_LENGTH))"
proof (intro conjI impI)
  show "fst (sendMessage this_bot api jid' body) = None"
    by (rule sendMessage_never_throws)
next
  assume a: "this_bot \<and> (\<forall>k. api k = None)" and short: "length body \<le> MAX_LENGTH"
  then show "apiCalls (snd (sendMessage this_bot api jid' body)) = [(numericId_of jid', body)]"
    using apiCalls_sent [of "[(numericId_of jid', body)]"]
    by (simp add: sendMessage_def)
next
  assume a: "this_bot \<and> (\<forall>k. api k = None)"
  then have all: "\<forall>k. api k = None" by simp
  show "concat (map snd (apiCalls (snd (sendMessage this_bot api jid' body)))) = body"
  proof (cases "length body \<le> MAX_LENGTH")
    case True
    with a show ?thesis
      using apiCalls_sent [of "[(numericId_of jid', body)]"] by (simp add: sendMessage_def)
  next
    case False
    obtain calls e where l: "sendLoop api (numericId_of jid') body 0 0 = (calls, e)"
      by (cases "sendLoop api (numericId_of jid') body 0 0")
    with sendLoop_all_resolve [OF all, of "numericId_of jid'" body 0 0]
    have "e = None" "concat (map snd calls) = body" by simp_all
    with a False l show ?thesis
      by (simp add: sendMessage_def apiCalls_sent)
  qed
next
  assume a: "this_bot \<and> (\<forall>k. api k = None)"
  then have all: "\<forall>k. api k = None" by simp
  show "\<forall>c \<in> set (apiCalls (snd (sendMessage this_bot api jid' body))).
         fst c = numericId_of jid' \<and> length (snd c) \<le> MAX_LENGTH"
  proof (cases "length body \<le> MAX_LENGTH")
    case True
    with a show ?thesis
      using apiCalls_sent [of "[(numericId_of jid', body)]"] by (simp add: sendMessage_def)
  next
    case False
    obtain calls e where l: "sendLoop api (numericId_of jid') body 0 0 = (calls, e)"
      by (cases "sendLoop api (numericId_of jid') body 0 0")
    with sendLoop_all_resolve [OF all, of "numericId_of jid'" body 0 0]
    have "e = None"
      "\<forall>c \<in> set calls. fst c = numericId_of jid' \<and> length (snd c) \<le> MAX_LENGTH \<and> snd c \<noteq> []"
      by simp_all
    with a False l show ?thesis
      by (simp add: sendMessage_def apiCalls_sent)
  qed
qed



text \<open>A text of 5000 units arrives whole; a short text is one call.\<close>

theorem sendMessage_chunks_witness:
  "length (replicate 5000 (CHR ''a'')) > MAX_LENGTH \<and>
   concat (map snd (apiCalls (snd (sendMessage True (\<lambda>k. None) ''tg:42''
      (replicate 5000 (CHR ''a'')))))) = replicate 5000 (CHR ''a'') \<and>
   apiCalls (snd (sendMessage True (\<lambda>k. None) ''tg:42'' ''hello'')) = [(''42'', ''hello'')]"
  using sendMessage_chunks [of True "\<lambda>k. None" "''tg:42''" "replicate 5000 (CHR ''a'')"]
    sendMessage_chunks [of True "\<lambda>k. None" "''tg:42''" "''hello''"]
  by (simp add: MAX_LENGTH_def numericId_of_def)

text \<open>Claim C8 as stated fails: with the bot not set nothing is sent, and when the first
  call of a text of 4097 units is rejected the remaining unit is never sent.\<close>

theorem sendMessage_sends_less:
  "apiCalls (snd (sendMessage False (\<lambda>k. None) ''tg:42'' ''hello'')) = [] \<and>
   apiCalls (snd (sendMessage True (\<lambda>k. Some ''429: Too Many Requests'')
      ''tg:42'' (replicate 4097 (CHR ''a'')))) = [(''42'', replicate 4096 (CHR ''a''))]"
  by (simp add: sendMessage_def apiCalls_def MAX_LENGTH_def numericId_of_def slice_def
      sendLoop.simps)

subsection \<open>The allowlist\<close>

lemma adminGuard_blocked: "blocked cfg c \<Longrightarrow> adminGuard cfg opts c = (None, [])"
  by (simp add: adminGuard_def)

lemma guarded_command_blocked: "blocked cfg c \<Longrightarrow> guarded_command call cmd cfg opts c = []"
  by (simp add: guarded_command_def adminGuard_blocked)

lemma blocked_handle:
  assumes "blocked cfg c"
  shows "handle cfg opts u c =
     (if u = Command Chatid then command_chatid c
      else if u = Command Ping then command_ping cfg
      else if u = MessageText \<and> take 1 (msg_text (message c)) \<noteq> ''/''
      then [Log ''debug'' ''Ignoring message from unauthorized user'']
      else [])"
proof (cases u)
  case (Command k)
  with assms show ?thesis
    by (cases k) (simp_all add: guarded_command_blocked command_rebuild_def)
qed (use assms in \<open>simp_all add: on_message_text_def storeNonText_def\<close>)

text \<open>
  Claim C9, as amended. When the allowlist is not empty and does not hold the sender's id,
  no update of that sender reaches the core: neither \<open>onMessage\<close> nor \<open>onChatMetadata\<close> is
  invoked and no admin command runs. The commands \<open>/chatid\<close> and \<open>/ping\<close>, which test no
  allowlist, are still answered with one reply; every other update produces nothing, or
  (a text message that does not start with a slash) the one debug line of the logger.
\<close>

theorem blocked_sender_reaches_nothing:
  assumes "blocked cfg c"
  shows "filter reaches_core (handle cfg opts u c) = [] \<and>
     (if u = Command Chatid \<or> u = Command Ping then (\<exists>t. handle cfg opts u c = [Reply t])
      else handle cfg opts u c = [] \<or>
           handle cfg opts u c = [Log ''debug'' ''Ignoring message from unauthorized user''])"
  unfolding blocked_handle [OF assms]
  by (simp add: command_chatid_def command_ping_def)

lemma toString_examples:
  "toString 1001 = ''1001''" "toString 2002 = ''2002''" "toString 2 = ''2''" "toString 7 = ''7''"
  by code_simp+

lemma example_blocked: "blocked example_config (example_ctx 2002 2 body ents)"
  by (simp add: blocked_def example_config_def example_ctx_def userId_of_def toString_examples)

text \<open>User 2002 is not on the allowlist of the example configuration: a text message
  leaves the debug line; a photo and \<open>/restart\<close> leave nothing.\<close>

theorem blocked_sender_reaches_nothing_witness:
  "blocked example_config (example_ctx 2002 2 ''hello'' []) \<and>
   handle example_config example_opts MessageText (example_ctx 2002 2 ''hello'' []) =
     [Log ''debug'' ''Ignoring message from unauthorized user''] \<and>
   handle example_config example_opts MessagePhoto (example_ctx 2002 2 ''hello'' []) = [] \<and>
   handle example_config example_opts (Command Restart) (example_ctx 2002 2 ''/restart'' []) = []"
  using blocked_sender_reaches_nothing
      [where opts = example_opts and u = MessageText, OF example_blocked [of "''hello''" "[]"]]
    blocked_sender_reaches_nothing
      [where opts = example_opts and u = MessagePhoto, OF example_blocked [of "''hello''" "[]"]]
    blocked_sender_reaches_nothing
      [where opts = example_opts and u = "Command Restart",
       OF example_blocked [of "''/restart''" "[]"]]
    example_blocked [of "''hello''" "[]"]
  by (simp add: on_message_text_def storeNonText_def guarded_command_blocked example_blocked)
    (simp add: example_ctx_def)

text \<open>Claim C9 as stated fails: \<open>/ping\<close> from a user who is not on the allowlist is
  answered.\<close>

theorem blocked_sender_ping_replies:
  "blocked example_config (example_ctx 2002 2 ''/ping'' []) \<and>
   handle example_config example_opts (Command Ping) (example_ctx 2002 2 ''/ping'' []) =
     [Reply ''Andy is online.'']"
proof (intro conjI)
  show "blocked example_config (example_ctx 2002 2 ''/ping'' [])"
    by (rule example_blocked)
  show "handle example_config example_opts (Command Ping) (example_ctx 2002 2 ''/ping'' []) =
     [Reply ''Andy is online.'']"
    by (simp add: command_ping_def example_config_def)
qed

subsection \<open>The mention translation\<close>

lemma toLowerCase_Nil_iff: "toLowerCase s = [] \<longleftrightarrow> s = []"
  by (simp add: toLowerCase_def)

lemma delivered_text:
  assumes "take 1 (msg_text (message c)) \<noteq> ''/''" and "\<not> blocked cfg c"
    and "map_of (registeredGroups opts) (chatJid_of c) = Some g"
  shows "map content (delivered (handle cfg opts MessageText c)) = [translated cfg c]"
  using assms by (simp add: on_message_text_def delivered_def)

text \<open>
  Claim C10, as amended. For a text message that does not start with a slash, from an
  allowed user in a registered chat, \<open>onMessage\<close> is invoked once; the content it gets is
  the text prefixed with \<open>@\<close>, the assistant's name and a space when the bot has a
  username, some mention entity of the message covers a text equal to \<open>@\<close> and that
  username up to case, and the text does not match the trigger pattern; otherwise it is
  the text unchanged.
\<close>

theorem text_message_content:
  assumes "take 1 (msg_text (message c)) \<noteq> ''/''" and "\<not> blocked cfg c"
    and "map_of (registeredGroups opts) (chatJid_of c) = Some g"
  shows "map content (delivered (handle cfg opts MessageText c)) =
     [if (\<exists>u. me_username c = Some u \<and> u \<noteq> [] \<and>
            (\<exists>e \<in> set (case entities (message c) of None \<Rightarrow> [] | Some es \<Rightarrow> es).
               entity_type e = ''mention'' \<and>
               toLowerCase (substring (msg_text (message c)) (offset e)
                              (offset e + entity_length e)) = ''@'' @ toLowerCase u)) \<and>
         \<not> TRIGGER_PATTERN cfg (msg_text (message c))
      then ''@'' @ ASSISTANT_NAME cfg @ '' '' @ msg_text (message c)
      else msg_text (message c)]"
proof -
  have "translated cfg c =
     (if (\<exists>u. me_username c = Some u \<and> u \<noteq> [] \<and>
            (\<exists>e \<in> set (case entities (message c) of None \<Rightarrow> [] | Some es \<Rightarrow> es).
               entity_type e = ''mention'' \<and>
               toLowerCase (substring (msg_text (message c)) (offset e)
                              (offset e + entity_length e)) = ''@'' @ toLowerCase u)) \<and>
         \<not> TRIGGER_PATTERN cfg (msg_text (message c))
      then ''@'' @ ASSISTANT_NAME cfg @ '' '' @ msg_text (message c)
      else msg_text (message c))"
    by (cases "me_username c")
      (auto simp: translated_def isBotMentioned_def list_ex_iff toLowerCase_Nil_iff)
  with delivered_text [OF assms] show ?thesis by simp
qed

text \<open>A mention of \<open>@ANDY_bot\<close> is translated; the same mention in a text that already
  starts with the trigger is not.\<close>

theorem text_message_content_witness:
  "map content (delivered (handle example_config example_opts MessageText
      (example_ctx 1001 2 ''hi @ANDY_bot there''
         [\<lparr>entity_type = ''mention'', offset = 3, entity_length = 9\<rparr>]))) =
     [''@Andy hi @ANDY_bot there''] \<and>
   map content (delivered (handle example_config example_opts MessageText
      (example_ctx 1001 2 ''@andy hi @ANDY_bot there''
         [\<lparr>entity_type = ''mention'', offset = 9, entity_length = 9\<rparr>]))) =
     [''@andy hi @ANDY_bot there'']"
proof -
  have allowed: "\<not> blocked example_config (example_ctx 1001 2 body ents)" for body ents
    by (simp add: blocked_def example_config_def example_ctx_def userId_of_def toString_examples)
  have registered: "map_of (registeredGroups example_opts) (chatJid_of (example_ctx 1001 2 body ents))
      = Some (example_group ''tg:2'' ''gmail-reader'' None)" for body ents
    by (simp add: example_opts_def example_groups_def chatJid_of_def example_ctx_def
        toString_examples)
  have t1: "take 1 (msg_text (message (example_ctx 1001 2 ''hi @ANDY_bot there''
         [\<lparr>entity_type = ''mention'', offset = 3, entity_length = 9\<rparr>]))) \<noteq> ''/''"
    by (simp add: example_ctx_def)
  have t2: "take 1 (msg_text (message (example_ctx 1001 2 ''@andy hi @ANDY_bot there''
         [\<lparr>entity_type = ''mention'', offset = 9, entity_length = 9\<rparr>]))) \<noteq> ''/''"
    by (simp add: example_ctx_def)
  have lower: "toLowerCase ''@ANDY_bot'' = ''@andy_bot''" "toLowerCase ''Andy_Bot'' = ''andy_bot''"
    by code_simp+
  have trig: "TRIGGER_PATTERN example_config ''hi @ANDY_bot there'' = False"
    "TRIGGER_PATTERN example_config ''@andy hi @ANDY_bot there'' = True"
    by code_simp+
  have andy: "ASSISTANT_NAME example_config = ''Andy''"
    by (simp add: example_config_def)
  show ?thesis
    using text_message_content [OF t1 allowed registered]
      text_message_content [OF t2 allowed registered]
    by (simp add: example_ctx_def substring_def lower trig andy)
qed

text \<open>Claim C10 as stated fails: a text message that starts with a slash and is no
  registered command, from an allowed user in a registered chat, is dropped; nothing is
  delivered to \<open>onMessage\<close>.\<close>

theorem slash_text_not_delivered:
  "\<not> blocked example_config (example_ctx 1001 2 ''/help'' []) \<and>
   map_of (registeredGroups example_opts) (chatJid_of (example_ctx 1001 2 ''/help'' [])) =
     Some (example_group ''tg:2'' ''gmail-reader'' None) \<and>
   handle example_config example_opts MessageText (example_ctx 1001 2 ''/help'' []) = []"
  by (simp add: blocked_def example_config_def example_ctx_def userId_of_def toString_examples
        example_opts_def example_groups_def chatJid_of_def on_message_text_def)

end
